theory Spec2Isabelle
  imports Complex_Main
begin

section \<open>The Andor AMH200-FOS shutter adapter (AndorAMH.h, AndorAMH.cpp)\<close>

text \<open>
  A shallow embedding of the class \<open>AndorAMH\<close>. Member functions become functions
  that take the object and return the result code together with the updated object.
  The calls into the hosting device framework (serial port, clock, property store) are
  made explicit: what the host answers during one call is an argument of the model.
\<close>

subsection \<open>Result codes\<close>

text \<open>The three error codes and the offset defined in AndorAMH.h.\<close>

definition ERR_PORT_CHANGE_FORBIDDEN :: int where
  "ERR_PORT_CHANGE_FORBIDDEN = 10004"

definition ERR_UNRECOGNIZED_ANSWER :: int where
  "ERR_UNRECOGNIZED_ANSWER = 10009"

definition ERR_UNSPECIFIED_ERROR :: int where
  "ERR_UNSPECIFIED_ERROR = 10010"

definition ERR_OFFSET :: int where
  "ERR_OFFSET = 10100"

text \<open>
  The generic result codes come from the framework header MMDeviceConstants.h, which is
  not among the adapter's two files; the values are the ones of that header. The
  theorems below refer to them by name.
\<close>

definition DEVICE_OK :: int where
  "DEVICE_OK = 0"

definition DEVICE_INVALID_PROPERTY :: int where
  "DEVICE_INVALID_PROPERTY = 2"

definition DEVICE_INVALID_PROPERTY_VALUE :: int where
  "DEVICE_INVALID_PROPERTY_VALUE = 3"

definition DEVICE_UNSUPPORTED_COMMAND :: int where
  "DEVICE_UNSUPPORTED_COMMAND = 11"

text \<open>
  The C++ type \<open>int\<close> is modelled by the mathematical integers. A computation of the
  source is defined only while its values stay representable; \<open>fits_int\<close> says so for
  the 32-bit \<open>int\<close> of the supported platforms.
\<close>

definition INT_MIN :: int where
  "INT_MIN = - 2147483648"

definition INT_MAX :: int where
  "INT_MAX = 2147483647"

definition fits_int :: "int \<Rightarrow> bool" where
  "fits_int v \<longleftrightarrow> INT_MIN \<le> v \<and> v \<le> INT_MAX"

subsection \<open>C library and stream formatting\<close>

text \<open>\<open>isdigit\<close> and \<open>isspace\<close> of the C locale, on the byte value of the character.\<close>

definition isdigit :: "char \<Rightarrow> bool" where
  "isdigit c \<longleftrightarrow> (48::nat) \<le> of_char c \<and> (of_char c :: nat) \<le> 57"

definition isspace :: "char \<Rightarrow> bool" where
  "isspace c \<longleftrightarrow> (of_char c :: nat) = 32 \<or> ((9::nat) \<le> of_char c \<and> (of_char c :: nat) \<le> 13)"

definition digit_val :: "char \<Rightarrow> int" where
  "digit_val c = int (of_char c) - 48"

text \<open>
  \<open>atoi\<close>: skip leading white space, read an optional sign, then accumulate decimal
  digits until the first character that is not a digit (the terminating NUL of
  \<open>c_str()\<close> included). No digits give 0; there is no failure result.
\<close>

fun digits_acc :: "int \<Rightarrow> string \<Rightarrow> int" where
  "digits_acc acc [] = acc"
| "digits_acc acc (c # cs) =
     (if isdigit c then digits_acc (10 * acc + digit_val c) cs else acc)"

definition atoi :: "string \<Rightarrow> int" where
  "atoi s =
     (case dropWhile isspace s of
        [] \<Rightarrow> 0
      | c # cs \<Rightarrow>
          if c = CHR ''-'' then - digits_acc 0 cs
          else if c = CHR ''+'' then digits_acc 0 cs
          else digits_acc 0 (c # cs))"

text \<open>
  \<open>operator<<\<close> of an output stream on a \<open>long\<close>, in the default formatting: a minus
  sign for a negative value, then the decimal digits without leading zeros.
\<close>

definition digit_char :: "nat \<Rightarrow> char" where
  "digit_char d = char_of (48 + d)"

function digits_of :: "nat \<Rightarrow> string" where
  "digits_of n = (if n < 10 then [digit_char n] else digits_of (n div 10) @ [digit_char (n mod 10)])"
  by pat_completeness auto
termination
  by (relation "measure (\<lambda>n. n)") auto

declare digits_of.simps [simp del]

definition show_long :: "int \<Rightarrow> string" where
  "show_long v = (if v < 0 then CHR ''-'' # digits_of (nat (- v)) else digits_of (nat v))"

subsection \<open>Double precision\<close>

text \<open>
  The finite values of the type \<open>double\<close> (IEEE 754 binary64): \<open>mant * 2 ^ expo\<close>, where a
  value of the type has a representation with \<open>\<bar>mant\<bar> < 2 ^ 53\<close> and
  \<open>- 1074 \<le> expo \<le> 971\<close>. Infinities and NaN are not modelled.
\<close>

record double =
  mant :: int
  expo :: int

definition dval :: "double \<Rightarrow> real" where
  "dval d = of_int (mant d) * 2 powi expo d"

text \<open>The number of binary digits of a positive integer.\<close>

function bitlen :: "int \<Rightarrow> nat" where
  "bitlen n = (if n \<le> 0 then 0 else Suc (bitlen (n div 2)))"
  by pat_completeness auto
termination
  by (relation "measure nat") auto

declare bitlen.simps [simp del]

text \<open>
  \<open>round_shift m k\<close> is \<open>m / 2 ^ k\<close> rounded to the nearest integer, a tie going to the
  even one. \<open>double_round m e\<close> is the \<open>double\<close> nearest to \<open>m * 2 ^ e\<close> in the default
  rounding mode: the digits beyond the 53rd, and those below \<open>2 ^ - 1074\<close>, are rounded
  away. The result is a value of the type when it is \<open>double_finite\<close>, that is below
  \<open>2 ^ 1024\<close> in magnitude; otherwise the operation overflows.
\<close>

definition round_shift :: "int \<Rightarrow> nat \<Rightarrow> int" where
  "round_shift m k =
     (let q = m div 2 ^ k; r = m mod 2 ^ k; half = 2 ^ (k - 1)
      in if r < half then q
         else if half < r then q + 1
         else if even q then q else q + 1)"

definition double_round :: "int \<Rightarrow> int \<Rightarrow> double" where
  "double_round m e =
     (let k = max (int (bitlen \<bar>m\<bar>) - 53) (- 1074 - e)
      in if k \<le> 0 then \<lparr>mant = m, expo = e\<rparr>
         else \<lparr>mant = round_shift m (nat k), expo = e + k\<rparr>)"

definition double_finite :: "double \<Rightarrow> bool" where
  "double_finite d \<longleftrightarrow> int (bitlen \<bar>mant d\<bar>) + expo d \<le> 1024"

text \<open>The product of two \<open>double\<close>s: the exact product, rounded.\<close>

definition double_mul :: "double \<Rightarrow> double \<Rightarrow> double" where
  "double_mul a b = double_round (mant a * mant b) (expo a + expo b)"

subsection \<open>The object and its environment\<close>

text \<open>
  The data members of \<open>AndorAMH\<close> (an identifier cannot end with an underscore here, so
  \<open>initialized_\<close> is \<open>initialized\<close>, and so on), followed by what the base class
  \<open>CShutterBase\<close> keeps for the object and the model needs: the delay behind
  \<open>GetDelayMs\<close>/\<open>SetDelayMs\<close>, the stored value of the State property (\<open>None\<close> until
  \<open>Initialize\<close> creates the property), whether the Intensity property exists and the
  limits registered for it, and the operations performed on the serial port so far,
  oldest first.
\<close>

text \<open>
  Modelled from the spec: \<open>MM::MMTime\<close>, which the framework header MMDevice.h declares
  and the source files only use. The specification's Timestamp is a point in time used
  solely to compute the elapsed time that is compared with the delay; here it is a real
  number of microseconds, with exact subtraction and comparison, and \<open>MMTime(x)\<close> for a
  \<open>double\<close> \<open>x\<close> is the value of \<open>x\<close> in microseconds.
\<close>

type_synonym MMTime = real

datatype serial_op =
  Purge string
| Send string string string
| Receive string string

record AndorAMH =
  initialized :: bool
  port :: string
  changedTime :: MMTime
  intensity :: int
  curState :: bool
  delayMs :: double
  stateProp :: "int option"
  hasIntensity :: bool
  intensityLimits :: "(int \<times> int) option"
  serial :: "serial_op list"

text \<open>
  What the host answers during one command cycle: the results of \<open>PurgeComPort\<close>,
  \<open>SendSerialCommand\<close> and \<open>GetSerialAnswer\<close>, the text the last one stores in
  \<open>answer\<close>, and the value of \<open>GetCurrentMMTime()\<close> read after the answer arrived.
\<close>

record round_trip =
  purge_ret :: int
  send_ret :: int
  answer_ret :: int
  answer :: string
  now :: MMTime

text \<open>
  \<open>MM::ActionType\<close>. The handlers test for \<open>BeforeGet\<close> and \<open>AfterSet\<close> only; every
  other action takes their final \<open>return DEVICE_OK\<close>.
\<close>

datatype ActionType =
  NoAction | BeforeGet | AfterSet | IsSequenceable | AfterLoadSequence | StartSequence
| StopSequence

subsection \<open>Constructor\<close>

text \<open>
  The member initialisers of \<open>AndorAMH::AndorAMH()\<close>. The base class starts with a delay
  of 0; the State and Intensity properties do not exist yet and nothing has happened on
  the serial port.
\<close>

definition AndorAMH_new :: AndorAMH where
  "AndorAMH_new =
     \<lparr>initialized = False, port = ''Andor-AMH200-FOS'', changedTime = 0, intensity = 1,
      curState = False, delayMs = \<lparr>mant = 0, expo = 0\<rparr>, stateProp = None,
      hasIntensity = False, intensityLimits = None, serial = []\<rparr>"

subsection \<open>Busy and Fire\<close>

text \<open>
  \<open>current\<close> is the value of \<open>GetCurrentMMTime()\<close>. The delay in microseconds is the
  \<open>double\<close> product \<open>GetDelayMs()*1000.0\<close>, rounded as the type rounds. \<open>Busy\<close> is not a
  \<open>const\<close> member; the model returns the object to show that it is left as it was.
  The unused argument of \<open>Fire\<close> is taken as a real number.
\<close>

definition thousand :: double where
  "thousand = \<lparr>mant = 1000, expo = 0\<rparr>"

definition Busy :: "MMTime \<Rightarrow> AndorAMH \<Rightarrow> bool \<times> AndorAMH" where
  "Busy current s =
     (let interval = current - changedTime s;
          delay = dval (double_mul (delayMs s) thousand)
      in if interval < delay then (True, s) else (False, s))"

definition Fire :: "real \<Rightarrow> AndorAMH \<Rightarrow> int \<times> AndorAMH" where
  "Fire deltaT s = (DEVICE_UNSUPPORTED_COMMAND, s)"

subsection \<open>The command cycle\<close>

text \<open>
  One command cycle: purge, send \<open>LIGHT,<level>\<close> with terminator CR, wait for the
  answer line, stamp the time, classify the answer. Each port operation is recorded
  before its result is tested. The \<open>LogMessage\<close> call of the error branch writes to the
  host's log only and is left out.
\<close>

definition command_text :: "bool \<Rightarrow> AndorAMH \<Rightarrow> string" where
  "command_text state s = ''LIGHT,'' @ show_long (if state then intensity s else 0)"

definition log_op :: "serial_op \<Rightarrow> AndorAMH \<Rightarrow> AndorAMH" where
  "log_op e s = s\<lparr>serial := serial s @ [e]\<rparr>"

definition SetShutterPosition :: "bool \<Rightarrow> round_trip \<Rightarrow> AndorAMH \<Rightarrow> int \<times> AndorAMH" where
  "SetShutterPosition state rt s =
     (let s1 = log_op (Purge (port s)) s in
      if purge_ret rt \<noteq> DEVICE_OK then (purge_ret rt, s1)
      else
        let s2 = log_op (Send (port s) (command_text state s) [CHR 0x0D]) s1 in
        if send_ret rt \<noteq> DEVICE_OK then (send_ret rt, s2)
        else
          let s3 = log_op (Receive (port s) [CHR 0x0D]) s2 in
          if answer_ret rt \<noteq> DEVICE_OK then (answer_ret rt, s3)
          else
            let s4 = s3\<lparr>changedTime := now rt\<rparr> in
            if take 1 (answer rt) = ''R'' then (DEVICE_OK, s4)
            else if take 1 (answer rt) = ''E'' \<and> length (answer rt) > 2
              then (ERR_OFFSET + atoi (drop 2 (answer rt)), s4)
            else (DEVICE_OK, s4))"

subsection \<open>The State property: OnState, SetOpen, GetOpen\<close>

text \<open>
  \<open>pos\<close> is what \<open>pProp->Get(pos)\<close> reads: the value the host has just stored in the
  property. The handler assigns \<open>curState_\<close> and then runs the command cycle.
\<close>

definition OnState :: "int \<Rightarrow> ActionType \<Rightarrow> round_trip \<Rightarrow> AndorAMH \<Rightarrow> int \<times> AndorAMH" where
  "OnState pos eAct rt s =
     (if eAct = BeforeGet then (DEVICE_OK, s)
      else if eAct = AfterSet then
        let s1 = s\<lparr>curState := (if pos = 0 then False else True)\<rparr>
        in SetShutterPosition (curState s1) rt s1
      else (DEVICE_OK, s))"

text \<open>
  \<open>SetProperty\<close> and \<open>GetProperty\<close> of the base class, for the State property and as far
  as the adapter relies on them: setting stores the value in the property and then calls
  the handler with \<open>AfterSet\<close>, whose result is the result of the call; getting calls the
  handler with \<open>BeforeGet\<close> (for State it does nothing: "will return cached value") and
  yields the stored value. A property that has not been created gives
  \<open>DEVICE_INVALID_PROPERTY\<close>, a value other than the allowed "0" and "1" gives
  \<open>DEVICE_INVALID_PROPERTY_VALUE\<close>. The stored value is not restored when the handler
  fails; \<open>OnPort\<close> restores its property by hand for that reason.
\<close>

definition SetProperty_State :: "int \<Rightarrow> round_trip \<Rightarrow> AndorAMH \<Rightarrow> int \<times> AndorAMH" where
  "SetProperty_State v rt s =
     (case stateProp s of
        None \<Rightarrow> (DEVICE_INVALID_PROPERTY, s)
      | Some old \<Rightarrow>
          if v \<noteq> 0 \<and> v \<noteq> 1 then (DEVICE_INVALID_PROPERTY_VALUE, s)
          else OnState v AfterSet rt (s\<lparr>stateProp := Some v\<rparr>))"

definition SetOpen :: "bool \<Rightarrow> round_trip \<Rightarrow> AndorAMH \<Rightarrow> int \<times> AndorAMH" where
  "SetOpen opn rt s =
     (let pos = (if opn then 1 else 0) in SetProperty_State pos rt s)"

text \<open>
  \<open>GetOpen\<close> has a reference parameter \<open>open\<close> (here \<open>opn\<close>): the model takes its
  value before the call and returns, after the result code, its value after the call.
\<close>

definition GetOpen :: "bool \<Rightarrow> AndorAMH \<Rightarrow> (int \<times> bool) \<times> AndorAMH" where
  "GetOpen opn s =
     (case stateProp s of
        None \<Rightarrow> ((DEVICE_INVALID_PROPERTY, opn), s)
      | Some pos \<Rightarrow> ((DEVICE_OK, (if pos = 1 then True else False)), s))"

subsection \<open>The other property handlers\<close>

text \<open>
  The first argument is the value held by \<open>pProp\<close> on entry; the second component of
  the result is the value it holds on return.
\<close>

definition OnPort :: "string \<Rightarrow> ActionType \<Rightarrow> AndorAMH \<Rightarrow> int \<times> string \<times> AndorAMH" where
  "OnPort prop eAct s =
     (if eAct = BeforeGet then (DEVICE_OK, port s, s)
      else if eAct = AfterSet then
        (if initialized s then (ERR_PORT_CHANGE_FORBIDDEN, port s, s)
         else (DEVICE_OK, prop, s\<lparr>port := prop\<rparr>))
      else (DEVICE_OK, prop, s))"

definition OnDelay :: "double \<Rightarrow> ActionType \<Rightarrow> AndorAMH \<Rightarrow> int \<times> double \<times> AndorAMH" where
  "OnDelay prop eAct s =
     (if eAct = BeforeGet then (DEVICE_OK, delayMs s, s)
      else if eAct = AfterSet then (DEVICE_OK, prop, s\<lparr>delayMs := prop\<rparr>)
      else (DEVICE_OK, prop, s))"

definition OnIntensity ::
    "int \<Rightarrow> ActionType \<Rightarrow> round_trip \<Rightarrow> AndorAMH \<Rightarrow> int \<times> int \<times> AndorAMH" where
  "OnIntensity prop eAct rt s =
     (if eAct = BeforeGet then (DEVICE_OK, intensity s, s)
      else if eAct = AfterSet then
        (let s1 = s\<lparr>intensity := prop\<rparr> in
         if curState s1
         then (case SetShutterPosition (curState s1) rt s1 of (ret, s2) \<Rightarrow> (ret, prop, s2))
         else (DEVICE_OK, prop, s1))
      else (DEVICE_OK, prop, s))"

text \<open>
  Modelled from the spec: the range check on a new intensity. It is the host's
  \<open>SetProperty\<close> that decides whether a value reaches \<open>OnIntensity\<close>, and the host is not
  among the source files. The specification's \<open>setIntensity\<close> validates
  \<open>1 <= level <= 100\<close>, fails with OutOfRange before any I/O otherwise, and else stores
  the level and re-issues the open command when the shutter is open. Here the bounds are
  the limits that \<open>Initialize\<close> registers with \<open>SetPropertyLimits\<close>, OutOfRange is the
  host's \<open>DEVICE_INVALID_PROPERTY_VALUE\<close>, and the storing and re-issuing is
  \<open>OnIntensity\<close>, from the source.
\<close>

definition SetProperty_Intensity :: "int \<Rightarrow> round_trip \<Rightarrow> AndorAMH \<Rightarrow> int \<times> AndorAMH" where
  "SetProperty_Intensity level rt s =
     (if \<not> hasIntensity s then (DEVICE_INVALID_PROPERTY, s)
      else
        case intensityLimits s of
          Some (lo, hi) \<Rightarrow>
            if level < lo \<or> hi < level then (DEVICE_INVALID_PROPERTY_VALUE, s)
            else (case OnIntensity level AfterSet rt s of (ret, prop, s1) \<Rightarrow> (ret, s1))
        | None \<Rightarrow> (case OnIntensity level AfterSet rt s of (ret, prop, s1) \<Rightarrow> (ret, s1)))"

subsection \<open>Initialize and Shutdown\<close>

text \<open>
  What the host answers during \<open>Initialize\<close>: the results of the three
  \<open>CreateProperty\<close> calls, of \<open>SetPropertyLimits\<close> and of \<open>UpdateStatus\<close>, and the
  value of \<open>GetCurrentMMTime()\<close> at the end. Creating the State property stores its
  initial value "0"; \<open>SetPropertyLimits\<close> registers the limits 1 and 100 for Intensity.
  The result of the \<open>SetProperty\<close> call that applies the initial state is discarded, as
  in the source.
\<close>

record init_host =
  create_state_ret :: int
  create_delay_ret :: int
  create_intensity_ret :: int
  limits_ret :: int
  update_ret :: int
  init_time :: MMTime

definition Initialize :: "init_host \<Rightarrow> round_trip \<Rightarrow> AndorAMH \<Rightarrow> int \<times> AndorAMH" where
  "Initialize h rt s =
     (if create_state_ret h \<noteq> DEVICE_OK then (create_state_ret h, s)
      else
        let s1 = s\<lparr>stateProp := Some 0\<rparr> in
        if create_delay_ret h \<noteq> DEVICE_OK then (create_delay_ret h, s1)
        else if create_intensity_ret h \<noteq> DEVICE_OK then (create_intensity_ret h, s1)
        else
          let s2 = s1\<lparr>hasIntensity := True\<rparr> in
          if limits_ret h \<noteq> DEVICE_OK then (limits_ret h, s2)
          else
            let s3 = s2\<lparr>intensityLimits := Some (1, 100)\<rparr> in
            if update_ret h \<noteq> DEVICE_OK then (update_ret h, s3)
            else
              let s4 = snd (SetProperty_State (if curState s3 then 1 else 0) rt s3);
                  s5 = s4\<lparr>changedTime := init_time h\<rparr>;
                  s6 = s5\<lparr>initialized := True\<rparr>
              in (DEVICE_OK, s6))"

definition Shutdown :: "round_trip \<Rightarrow> AndorAMH \<Rightarrow> int \<times> AndorAMH" where
  "Shutdown rt s =
     (if initialized s then
        (case SetShutterPosition False rt s of
           (ret, s1) \<Rightarrow>
             if ret \<noteq> DEVICE_OK then (ret, s1)
             else (DEVICE_OK, s1\<lparr>initialized := False\<rparr>))
      else (DEVICE_OK, s))"

subsection \<open>The reply classification of the specification\<close>

text \<open>
  The specification's \<open>decode\<close>, written from its words and kept apart from the code:
  a reply starting with \<open>R\<close> is an acknowledgement; a reply starting with \<open>E\<close> and
  longer than 2 characters is a device error when the text from index 2 on is a valid
  integer (an optional sign followed by one or more decimal digits and nothing else),
  and malformed otherwise; every other reply, the empty one included, is malformed.
\<close>

datatype CommandReply = Ack | DeviceError int | Malformed string

fun dec_value :: "string \<Rightarrow> int" where
  "dec_value [] = 0"
| "dec_value (c # cs) = digit_val c * 10 ^ length cs + dec_value cs"

definition spec_digits :: "string \<Rightarrow> int option" where
  "spec_digits ds = (if ds \<noteq> [] \<and> list_all isdigit ds then Some (dec_value ds) else None)"

definition spec_parse_int :: "string \<Rightarrow> int option" where
  "spec_parse_int t =
     (case t of
        [] \<Rightarrow> None
      | c # r \<Rightarrow>
          if c = CHR ''-'' then map_option uminus (spec_digits r)
          else if c = CHR ''+'' then spec_digits r
          else spec_digits t)"

definition spec_decode :: "string \<Rightarrow> CommandReply" where
  "spec_decode raw =
     (case raw of
        [] \<Rightarrow> Malformed raw
      | c # r \<Rightarrow>
          if c = CHR ''R'' then Ack
          else if c = CHR ''E'' \<and> length raw > 2 then
            (case spec_parse_int (drop 2 raw) of
               Some code \<Rightarrow> DeviceError code
             | None \<Rightarrow> Malformed raw)
          else Malformed raw)"

subsection \<open>Observations and example inputs\<close>

text \<open>The command texts handed to \<open>SendSerialCommand\<close> so far, oldest first.\<close>

fun sent_text :: "serial_op \<Rightarrow> string list" where
  "sent_text (Send p c t) = [c]"
| "sent_text (Purge p) = []"
| "sent_text (Receive p t) = []"

definition sent :: "AndorAMH \<Rightarrow> string list" where
  "sent s = concat (map sent_text (serial s))"

text \<open>
  Inputs for the concrete instances below: a round trip in which the port works and the
  device answers \<open>a\<close> at time \<open>t\<close>, a round trip in which purging the port fails with
  the host's generic error 1, a host that creates every property, and the object after
  construction and a successful \<open>Initialize\<close>.
\<close>

definition transport_ok :: "string \<Rightarrow> MMTime \<Rightarrow> round_trip" where
  "transport_ok a t =
     \<lparr>purge_ret = DEVICE_OK, send_ret = DEVICE_OK, answer_ret = DEVICE_OK, answer = a, now = t\<rparr>"

definition purge_fails :: "MMTime \<Rightarrow> round_trip" where
  "purge_fails t =
     \<lparr>purge_ret = 1, send_ret = DEVICE_OK, answer_ret = DEVICE_OK, answer = [], now = t\<rparr>"

definition host_ok :: "MMTime \<Rightarrow> init_host" where
  "host_ok t =
     \<lparr>create_state_ret = DEVICE_OK, create_delay_ret = DEVICE_OK,
      create_intensity_ret = DEVICE_OK, limits_ret = DEVICE_OK, update_ret = DEVICE_OK,
      init_time = t\<rparr>"

text \<open>
  Two delays: the \<open>double\<close> nearest to 0.1, which is what "0.1" denotes in the type, and
  5 milliseconds.
\<close>

definition tenth :: double where
  "tenth = \<lparr>mant = 3602879701896397, expo = - 55\<rparr>"

definition five :: double where
  "five = \<lparr>mant = 5, expo = 0\<rparr>"

definition ready :: AndorAMH where
  "ready = snd (Initialize (host_ok 0) (transport_ok ''R'' 0) AndorAMH_new)"

section \<open>Theorems\<close>

subsection \<open>\<open>atoi\<close> agrees with the specification's integers; rendering is decimal\<close>

lemma digits_acc_dec_value:
  "list_all isdigit ds \<Longrightarrow> digits_acc a ds = a * 10 ^ length ds + dec_value ds"
proof (induction ds arbitrary: a)
  case Nil
  then show ?case by simp
next
  case (Cons c cs)
  from Cons.prems have d: "isdigit c" and r: "list_all isdigit cs" by simp_all
  have "digits_acc a (c # cs) = digits_acc (10 * a + digit_val c) cs" using d by simp
  also have "\<dots> = (10 * a + digit_val c) * 10 ^ length cs + dec_value cs"
    using Cons.IH [OF r] by simp
  also have "\<dots> = a * 10 ^ length (c # cs) + dec_value (c # cs)"
    by (simp add: algebra_simps)
  finally show ?case .
qed

lemma digits_acc_digits:
  "spec_digits ds = Some v \<Longrightarrow> digits_acc 0 ds = v"
  using digits_acc_dec_value [of ds 0]
  by (auto simp: spec_digits_def split: if_splits)

lemma isdigit_not_space: "isdigit c \<Longrightarrow> \<not> isspace c"
  by (auto simp: isdigit_def isspace_def)

lemma sign_not_space: "\<not> isspace (CHR ''-'')" "\<not> isspace (CHR ''+'')"
  by (simp_all add: isspace_def)

lemma atoi_valid_integer:
  assumes "spec_parse_int t = Some n"
  shows "atoi t = n"
proof (cases t)
  case Nil
  with assms show ?thesis by (simp add: spec_parse_int_def)
next
  case (Cons c r)
  consider (minus) "c = CHR ''-''" | (plus) "c = CHR ''+''"
    | (digit) "c \<noteq> CHR ''-''" "c \<noteq> CHR ''+''" by blast
  then show ?thesis
  proof cases
    case minus
    with assms Cons obtain v where v: "spec_digits r = Some v" and n: "n = - v"
      by (auto simp: spec_parse_int_def)
    have "atoi t = - digits_acc 0 r"
      using Cons minus sign_not_space(1) by (simp add: atoi_def)
    with digits_acc_digits [OF v] n show ?thesis by simp
  next
    case plus
    with assms Cons have v: "spec_digits r = Some n"
      by (simp add: spec_parse_int_def)
    have "atoi t = digits_acc 0 r"
      using Cons plus sign_not_space(2) by (simp add: atoi_def)
    with digits_acc_digits [OF v] show ?thesis by simp
  next
    case digit
    with assms Cons have v: "spec_digits t = Some n"
      by (simp add: spec_parse_int_def)
    from v Cons have "isdigit c" by (auto simp: spec_digits_def split: if_splits)
    then have "\<not> isspace c" by (rule isdigit_not_space)
    then have "atoi t = digits_acc 0 t"
      using Cons digit by (simp add: atoi_def)
    with digits_acc_digits [OF v] show ?thesis by simp
  qed
qed

lemma digit_char_props:
  assumes "d < 10"
  shows "isdigit (digit_char d)" and "digit_val (digit_char d) = int d"
  using assms by (simp_all add: isdigit_def digit_char_def digit_val_def)

lemma dec_value_snoc: "dec_value (ds @ [c]) = dec_value ds * 10 + digit_val c"
  by (induction ds) (simp_all add: algebra_simps)

lemma digits_of_props:
  "digits_of n \<noteq> [] \<and> list_all isdigit (digits_of n) \<and> dec_value (digits_of n) = int n"
proof (induction n rule: digits_of.induct)
  case (1 n)
  show ?case
  proof (cases "n < 10")
    case True
    then show ?thesis
      using digit_char_props [of n] by (subst (1 2 3) digits_of.simps) simp
  next
    case False
    have m: "n mod 10 < 10" by simp
    from False 1 have IH: "digits_of (n div 10) \<noteq> []" 
      "list_all isdigit (digits_of (n div 10))" "dec_value (digits_of (n div 10)) = int (n div 10)"
      by simp_all
    have eq: "digits_of n = digits_of (n div 10) @ [digit_char (n mod 10)]"
      using False by (subst digits_of.simps) simp
    have "n div 10 * 10 + n mod 10 = n" by simp
    then have "int (n div 10 * 10 + n mod 10) = int n" by (rule arg_cong)
    then have ar: "int (n div 10) * 10 + int (n mod 10) = int n"
      by (simp only: of_nat_add of_nat_mult of_nat_numeral)
    show ?thesis
      unfolding eq using IH digit_char_props [OF m] ar
      by (simp add: dec_value_snoc)
  qed
qed

lemma digits_of_not_sign: "hd (digits_of n) \<noteq> CHR ''-'' \<and> hd (digits_of n) \<noteq> CHR ''+''"
proof -
  from digits_of_props [of n] obtain c r where cr: "digits_of n = c # r" and "isdigit c"
    by (cases "digits_of n") auto
  then show ?thesis by (auto simp: isdigit_def)
qed

lemma spec_parse_show_long: "0 \<le> v \<Longrightarrow> spec_parse_int (show_long v) = Some v"
proof -
  assume nn: "0 \<le> v"
  from digits_of_props [of "nat v"] obtain c r where cr: "digits_of (nat v) = c # r"
    by (cases "digits_of (nat v)") auto
  from digits_of_not_sign [of "nat v"] cr have "c \<noteq> CHR ''-''" "c \<noteq> CHR ''+''" by simp_all
  moreover have "spec_digits (digits_of (nat v)) = Some v"
    using digits_of_props [of "nat v"] nn by (simp add: spec_digits_def)
  ultimately show ?thesis using nn cr by (simp add: show_long_def spec_parse_int_def)
qed

subsection \<open>What a command cycle changes\<close>

text \<open>
  A command cycle touches the time stamp and the record of the serial port, nothing else.
\<close>

lemma SetShutterPosition_frame:
  "initialized (snd (SetShutterPosition st rt s)) = initialized s"
  "port (snd (SetShutterPosition st rt s)) = port s"
  "intensity (snd (SetShutterPosition st rt s)) = intensity s"
  "curState (snd (SetShutterPosition st rt s)) = curState s"
  "delayMs (snd (SetShutterPosition st rt s)) = delayMs s"
  "stateProp (snd (SetShutterPosition st rt s)) = stateProp s"
  "hasIntensity (snd (SetShutterPosition st rt s)) = hasIntensity s"
  "intensityLimits (snd (SetShutterPosition st rt s)) = intensityLimits s"
  by (simp_all add: SetShutterPosition_def log_op_def Let_def)

lemma first_char: "xs \<noteq> [] \<Longrightarrow> take 1 xs = [hd xs]"
  by (cases xs) simp_all

lemma SetShutterPosition_E:
  assumes "purge_ret rt = DEVICE_OK" "send_ret rt = DEVICE_OK" "answer_ret rt = DEVICE_OK"
    and "hd (answer rt) = CHR ''E''" "length (answer rt) > 2"
  shows "fst (SetShutterPosition st rt s) = ERR_OFFSET + atoi (drop 2 (answer rt))"
proof -
  from assms(5) have ne: "answer rt \<noteq> []" by auto
  from first_char [OF ne] assms(4) have t: "take 1 (answer rt) = ''E''" by simp
  show ?thesis using assms(1,2,3,5) t
    by (simp add: SetShutterPosition_def Let_def)
qed

lemma spec_decode_E_invalid:
  assumes "hd raw = CHR ''E''" "length raw > 2" "spec_parse_int (drop 2 raw) = None"
  shows "spec_decode raw = Malformed raw"
  using assms by (cases raw) (simp_all add: spec_decode_def)

lemma OnState_AfterSet_curState:
  "curState (snd (OnState pos AfterSet rt s)) = (pos \<noteq> 0)"
  by (simp add: OnState_def Let_def SetShutterPosition_frame)

lemma OnState_AfterSet_stateProp:
  "stateProp (snd (OnState pos AfterSet rt s)) = stateProp s"
  by (simp add: OnState_def Let_def SetShutterPosition_frame)

lemma SetOpen_frame:
  "initialized (snd (SetOpen b rt s)) = initialized s"
  "port (snd (SetOpen b rt s)) = port s"
  "intensity (snd (SetOpen b rt s)) = intensity s"
  "hasIntensity (snd (SetOpen b rt s)) = hasIntensity s"
  "intensityLimits (snd (SetOpen b rt s)) = intensityLimits s"
  by (simp_all add: SetOpen_def SetProperty_State_def OnState_def Let_def
      SetShutterPosition_frame split: option.splits)

lemma Initialize_ok:
  assumes "fst (Initialize h rt s) = DEVICE_OK"
  shows "initialized (snd (Initialize h rt s))"
    and "hasIntensity (snd (Initialize h rt s))"
    and "intensityLimits (snd (Initialize h rt s)) = Some (1, 100)"
    and "port (snd (Initialize h rt s)) = port s"
    and "intensity (snd (Initialize h rt s)) = intensity s"
  using assms
  by (simp_all add: Initialize_def Let_def SetProperty_State_def OnState_def
      SetShutterPosition_frame split: if_splits)

lemma sent_log_op:
  "sent (log_op e s) = sent s @ sent_text e"
  by (simp add: sent_def log_op_def)

lemma sent_changedTime [simp]: "sent (s\<lparr>changedTime := t\<rparr>) = sent s"
  by (simp add: sent_def)

lemma SetShutterPosition_sent:
  "sent (snd (SetShutterPosition st rt s)) =
     (if purge_ret rt = DEVICE_OK then sent s @ [command_text st s] else sent s)"
  by (simp add: SetShutterPosition_def Let_def sent_log_op)

subsection \<open>Concrete evaluations\<close>

lemma ready_eq:
  "ready = \<lparr>initialized = True, port = ''Andor-AMH200-FOS'', changedTime = 0, intensity = 1,
      curState = False, delayMs = \<lparr>mant = 0, expo = 0\<rparr>, stateProp = Some 0, hasIntensity = True,
      intensityLimits = Some (1, 100),
      serial = [Purge ''Andor-AMH200-FOS'', Send ''Andor-AMH200-FOS'' ''LIGHT,0'' [CHR 0x0D],
        Receive ''Andor-AMH200-FOS'' [CHR 0x0D]]\<rparr>"
  by (simp add: ready_def Initialize_def host_ok_def transport_ok_def AndorAMH_new_def
      SetProperty_State_def OnState_def SetShutterPosition_def log_op_def command_text_def
      Let_def DEVICE_OK_def) code_simp

lemma show_long_examples:
  "show_long 0 = ''0''" "show_long 1 = ''1''" "show_long 50 = ''50''" "show_long 100 = ''100''"
  by code_simp+

lemma spec_parse_12: "spec_parse_int ''12'' = Some 12"
  by (simp add: spec_parse_int_def spec_digits_def isdigit_def digit_val_def)

lemma atoi_12abc: "atoi ''12abc'' = 12"
  by (simp add: atoi_def isspace_def isdigit_def digit_val_def)

lemma spec_parse_12abc: "spec_parse_int ''12abc'' = None"
  by (simp add: spec_parse_int_def spec_digits_def isdigit_def)

lemma atoi_minus_91x: "atoi ''-91x'' = - 91"
  by (simp add: atoi_def isspace_def isdigit_def digit_val_def)

lemma spec_parse_minus_91x: "spec_parse_int ''-91x'' = None"
  by (simp add: spec_parse_int_def spec_digits_def isdigit_def)

subsection \<open>Replies that the specification calls malformed\<close>

text \<open>
  C1, as amended. The source has no notion of an invalid integer: for a reply that
  starts with \<open>E\<close> and is longer than 2 characters, and whose text from index 2 on is
  not a valid integer (so that the specification classifies the reply as malformed), a
  command cycle whose port operations succeed returns \<open>ERR_OFFSET\<close> plus the value
  \<open>atoi\<close> gives that text: the value of its leading digits after optional white space
  and sign, and 0 when there are none. This result is \<open>ERR_UNRECOGNIZED_ANSWER\<close> exactly
  when that value is - 91. The premises \<open>fits_int\<close> keep the conversion and the sum
  inside the range of \<open>int\<close>.
\<close>

theorem E_reply_without_integer:
  assumes "purge_ret rt = DEVICE_OK" "send_ret rt = DEVICE_OK" "answer_ret rt = DEVICE_OK"
    and "hd (answer rt) = CHR ''E''" "length (answer rt) > 2"
    and "spec_parse_int (drop 2 (answer rt)) = None"
    and "fits_int (atoi (drop 2 (answer rt)))" "fits_int (ERR_OFFSET + atoi (drop 2 (answer rt)))"
  shows "spec_decode (answer rt) = Malformed (answer rt) \<and>
         fst (SetShutterPosition st rt s) = ERR_OFFSET + atoi (drop 2 (answer rt)) \<and>
         (fst (SetShutterPosition st rt s) = ERR_UNRECOGNIZED_ANSWER) =
           (atoi (drop 2 (answer rt)) = - 91)"
proof -
  have r: "fst (SetShutterPosition st rt s) = ERR_OFFSET + atoi (drop 2 (answer rt))"
    by (rule SetShutterPosition_E [OF assms(1-5)])
  have m: "spec_decode (answer rt) = Malformed (answer rt)"
    by (rule spec_decode_E_invalid [OF assms(4-6)])
  have "(ERR_OFFSET + atoi (drop 2 (answer rt)) = ERR_UNRECOGNIZED_ANSWER) =
      (atoi (drop 2 (answer rt)) = - 91)"
    by (auto simp: ERR_OFFSET_def ERR_UNRECOGNIZED_ANSWER_def)
  with r m show ?thesis by simp
qed

text \<open>
  Two instances: the reply \<open>E,12abc\<close> is malformed for the specification and gives
  10112; the reply \<open>E,-91x\<close> is malformed too and gives 10009, which is
  \<open>ERR_UNRECOGNIZED_ANSWER\<close>.
\<close>

theorem E_reply_without_integer_witness:
  "spec_decode ''E,12abc'' = Malformed ''E,12abc'' \<and>
   fst (SetShutterPosition True (transport_ok ''E,12abc'' 5) AndorAMH_new) = 10112 \<and>
   spec_decode ''E,-91x'' = Malformed ''E,-91x'' \<and>
   fst (SetShutterPosition True (transport_ok ''E,-91x'' 5) AndorAMH_new) = ERR_UNRECOGNIZED_ANSWER"
proof -
  let ?rt = "transport_ok ''E,12abc'' 5"
  let ?rt' = "transport_ok ''E,-91x'' 5"
  have h: "purge_ret ?rt = DEVICE_OK" "send_ret ?rt = DEVICE_OK" "answer_ret ?rt = DEVICE_OK"
    "hd (answer ?rt) = CHR ''E''" "length (answer ?rt) > 2"
    "spec_parse_int (drop 2 (answer ?rt)) = None"
    "fits_int (atoi (drop 2 (answer ?rt)))" "fits_int (ERR_OFFSET + atoi (drop 2 (answer ?rt)))"
    by (simp_all add: transport_ok_def spec_parse_12abc atoi_12abc fits_int_def INT_MIN_def
        INT_MAX_def ERR_OFFSET_def)
  have h': "purge_ret ?rt' = DEVICE_OK" "send_ret ?rt' = DEVICE_OK" "answer_ret ?rt' = DEVICE_OK"
    "hd (answer ?rt') = CHR ''E''" "length (answer ?rt') > 2"
    "spec_parse_int (drop 2 (answer ?rt')) = None"
    "fits_int (atoi (drop 2 (answer ?rt')))" "fits_int (ERR_OFFSET + atoi (drop 2 (answer ?rt')))"
    by (simp_all add: transport_ok_def spec_parse_minus_91x atoi_minus_91x fits_int_def
        INT_MIN_def INT_MAX_def ERR_OFFSET_def)
  from E_reply_without_integer [OF h, of True AndorAMH_new]
    E_reply_without_integer [OF h', of True AndorAMH_new]
  show ?thesis
    by (simp add: transport_ok_def atoi_12abc atoi_minus_91x ERR_OFFSET_def)
qed

text \<open>
  The statement that every malformed reply gives \<open>ERR_UNRECOGNIZED_ANSWER\<close> fails:
  the empty reply, \<open>X,5\<close> and \<open>E\<close> give \<open>DEVICE_OK\<close>, and \<open>E,x\<close> gives \<open>ERR_OFFSET\<close>.
\<close>

theorem malformed_reply_counterexample:
  "spec_decode [] = Malformed [] \<and>
   fst (SetShutterPosition True (transport_ok [] 5) AndorAMH_new) = DEVICE_OK \<and>
   spec_decode ''X,5'' = Malformed ''X,5'' \<and>
   fst (SetShutterPosition True (transport_ok ''X,5'' 5) AndorAMH_new) = DEVICE_OK \<and>
   spec_decode ''E'' = Malformed ''E'' \<and>
   fst (SetShutterPosition True (transport_ok ''E'' 5) AndorAMH_new) = DEVICE_OK \<and>
   spec_decode ''E,x'' = Malformed ''E,x'' \<and>
   fst (SetShutterPosition True (transport_ok ''E,x'' 5) AndorAMH_new) = ERR_OFFSET \<and>
   DEVICE_OK \<noteq> ERR_UNRECOGNIZED_ANSWER \<and> ERR_OFFSET \<noteq> ERR_UNRECOGNIZED_ANSWER"
  by (simp add: spec_decode_def spec_parse_int_def spec_digits_def isdigit_def
      SetShutterPosition_def transport_ok_def Let_def atoi_def isspace_def
      DEVICE_OK_def ERR_OFFSET_def ERR_UNRECOGNIZED_ANSWER_def)

subsection \<open>The open flag\<close>

text \<open>
  C2, as amended. \<open>OnState\<close> assigns the requested state to \<open>curState_\<close> before it
  runs the command cycle, and nothing takes the assignment back: after every attempt,
  whatever the port operations return and whatever the reply is, \<open>curState_\<close> is the
  requested state; and once the State property exists, \<open>GetOpen\<close> after \<open>SetOpen b\<close>
  reports \<open>b\<close>.
\<close>

theorem open_flag_follows_request:
  "curState (snd (OnState pos AfterSet rt s)) = (pos \<noteq> 0) \<and>
   (stateProp s \<noteq> None \<longrightarrow>
      curState (snd (SetOpen b rt s)) = b \<and>
      fst (GetOpen x (snd (SetOpen b rt s))) = (DEVICE_OK, b))"
  by (auto simp: SetOpen_def SetProperty_State_def GetOpen_def Let_def
      OnState_AfterSet_curState OnState_AfterSet_stateProp)

theorem open_flag_follows_request_witness:
  "stateProp ready \<noteq> None \<and>
   curState (snd (SetOpen True (transport_ok ''R'' 1) ready)) = True \<and>
   fst (GetOpen False (snd (SetOpen True (transport_ok ''R'' 1) ready))) = (DEVICE_OK, True)"
proof -
  have h: "stateProp ready \<noteq> None" by (simp add: ready_eq)
  from open_flag_follows_request [of 1 "transport_ok ''R'' 1" ready True False] h
  show ?thesis by simp
qed

text \<open>
  The statement that a device error leaves the open flag unchanged fails: on an
  initialized, closed shutter, \<open>SetOpen(true)\<close> answered by \<open>E,5\<close> returns
  \<open>ERR_OFFSET + 5\<close>, and afterwards \<open>curState_\<close> is true and \<open>GetOpen\<close> reports open.
\<close>

theorem open_flag_counterexample:
  "spec_decode ''E,5'' = DeviceError 5 \<and>
   curState ready = False \<and>
   fst (GetOpen True ready) = (DEVICE_OK, False) \<and>
   fst (SetOpen True (transport_ok ''E,5'' 1) ready) = ERR_OFFSET + 5 \<and>
   curState (snd (SetOpen True (transport_ok ''E,5'' 1) ready)) = True \<and>
   fst (GetOpen False (snd (SetOpen True (transport_ok ''E,5'' 1) ready))) = (DEVICE_OK, True)"
  by (simp add: ready_eq spec_decode_def spec_parse_int_def spec_digits_def isdigit_def
      digit_val_def GetOpen_def SetOpen_def SetProperty_State_def OnState_def
      SetShutterPosition_def log_op_def transport_ok_def Let_def atoi_def isspace_def
      DEVICE_OK_def ERR_OFFSET_def)

subsection \<open>The command text\<close>

text \<open>
  C3. For a stored intensity between 1 and 100, a command cycle for "open" whose purge
  succeeds sends exactly one text, \<open>LIGHT,\<close> followed by the decimal rendering of the
  intensity, and a cycle for "close" sends exactly \<open>LIGHT,0\<close>; when the purge fails
  nothing is sent. The rendering consists of at most three characters and reads back,
  as an integer of the specification, as the intensity.
\<close>

theorem command_sent:
  assumes "1 \<le> intensity s" "intensity s \<le> 100"
  shows "(purge_ret rt = DEVICE_OK \<longrightarrow>
            sent (snd (SetShutterPosition True rt s)) = sent s @ [''LIGHT,'' @ show_long (intensity s)] \<and>
            sent (snd (SetShutterPosition False rt s)) = sent s @ [''LIGHT,0'']) \<and>
         (purge_ret rt \<noteq> DEVICE_OK \<longrightarrow>
            sent (snd (SetShutterPosition True rt s)) = sent s \<and>
            sent (snd (SetShutterPosition False rt s)) = sent s) \<and>
         spec_parse_int (show_long (intensity s)) = Some (intensity s) \<and>
         length (show_long (intensity s)) \<le> 3"
proof -
  have r: "spec_parse_int (show_long (intensity s)) = Some (intensity s)"
    using assms(1) by (intro spec_parse_show_long) simp
  have l: "length (show_long (intensity s)) \<le> 3"
  proof -
    let ?n = "nat (intensity s)"
    have n: "?n \<le> 100" "1 \<le> ?n" using assms by simp_all
    have d1: "\<And>k. k < 10 \<Longrightarrow> length (digits_of k) = 1"
      by (subst digits_of.simps) simp
    have d2: "\<And>k. k < 100 \<Longrightarrow> length (digits_of k) \<le> 2"
    proof -
      fix k :: nat assume "k < 100"
      then have "k div 10 < 10" by simp
      from d1 [OF this] show "length (digits_of k) \<le> 2"
        by (subst digits_of.simps) (simp add: d1)
    qed
    have "length (digits_of ?n) \<le> 3"
    proof -
      have "?n div 10 < 100" using n by simp
      from d2 [OF this] show ?thesis
        by (subst digits_of.simps) (simp add: d1)
    qed
    then show ?thesis using assms by (simp add: show_long_def)
  qed
  show ?thesis using r l
    by (simp add: SetShutterPosition_sent command_text_def show_long_examples)
qed

theorem command_sent_witness:
  "sent (snd (SetShutterPosition True (transport_ok ''R'' 1) (ready\<lparr>intensity := 50\<rparr>))) =
     [''LIGHT,0'', ''LIGHT,50''] \<and>
   sent (snd (SetShutterPosition False (transport_ok ''R'' 1) (ready\<lparr>intensity := 50\<rparr>))) =
     [''LIGHT,0'', ''LIGHT,0''] \<and>
   sent (snd (SetShutterPosition True (purge_fails 1) (ready\<lparr>intensity := 50\<rparr>))) = [''LIGHT,0'']"
proof -
  let ?s = "ready\<lparr>intensity := 50\<rparr>"
  have i: "1 \<le> intensity ?s" "intensity ?s \<le> 100" by simp_all
  have s0: "sent ?s = [''LIGHT,0'']" by (simp add: ready_eq sent_def)
  have p: "purge_ret (transport_ok ''R'' 1) = DEVICE_OK" "purge_ret (purge_fails 1) \<noteq> DEVICE_OK"
    by (simp_all add: transport_ok_def purge_fails_def DEVICE_OK_def)
  from command_sent [OF i, of "transport_ok ''R'' 1"] command_sent [OF i, of "purge_fails 1"] p s0
  show ?thesis by (simp add: show_long_examples)
qed

subsection \<open>The time stamp\<close>

text \<open>
  C4. When purge, send and receive all succeed, the command cycle sets \<open>changedTime_\<close>
  to the current time, whatever the reply is; when one of them fails, \<open>changedTime_\<close>
  keeps its value.
\<close>

theorem changedTime_refresh:
  "(purge_ret rt = DEVICE_OK \<and> send_ret rt = DEVICE_OK \<and> answer_ret rt = DEVICE_OK
      \<longrightarrow> changedTime (snd (SetShutterPosition st rt s)) = now rt) \<and>
   (purge_ret rt \<noteq> DEVICE_OK \<or> send_ret rt \<noteq> DEVICE_OK \<or> answer_ret rt \<noteq> DEVICE_OK
      \<longrightarrow> changedTime (snd (SetShutterPosition st rt s)) = changedTime s)"
  by (simp add: SetShutterPosition_def log_op_def Let_def)

theorem changedTime_refresh_witness:
  "changedTime (snd (SetShutterPosition True (transport_ok ''E,5'' 7) ready)) = 7 \<and>
   changedTime (snd (SetShutterPosition True (transport_ok ''?'' 8) ready)) = 8 \<and>
   changedTime (snd (SetShutterPosition True (purge_fails 7) ready)) = changedTime ready"
  using changedTime_refresh [of "transport_ok ''E,5'' 7" True ready]
    changedTime_refresh [of "transport_ok ''?'' 8" True ready]
    changedTime_refresh [of "purge_fails 7" True ready]
  by (simp add: transport_ok_def purge_fails_def DEVICE_OK_def)

subsection \<open>Busy\<close>

lemma double_round_exact:
  "int (bitlen \<bar>m\<bar>) \<le> 53 \<Longrightarrow> - 1074 \<le> e \<Longrightarrow> double_round m e = \<lparr>mant = m, expo = e\<rparr>"
  by (simp add: double_round_def Let_def)

lemma dval_product:
  "dval \<lparr>mant = mant a * mant b, expo = expo a + expo b\<rparr> = dval a * dval b"
  by (simp add: dval_def power_int_add)

lemma dval_thousand: "dval thousand = 1000"
  by (simp add: dval_def thousand_def)

lemma double_mul_thousand_exact:
  assumes "int (bitlen \<bar>mant d * 1000\<bar>) \<le> 53" "- 1074 \<le> expo d"
  shows "dval (double_mul d thousand) = dval d * 1000"
proof -
  have "double_mul d thousand = \<lparr>mant = mant d * mant thousand, expo = expo d + expo thousand\<rparr>"
    using assms by (simp add: double_mul_def thousand_def double_round_exact)
  then show ?thesis by (simp only: dval_product dval_thousand)
qed

lemma bitlen_examples:
  "bitlen 5000 = 13" "bitlen 3602879701896397000 = 62" "bitlen 7036874417766400 = 53"
  by (simp_all add: bitlen.simps)

lemma double_mul_five: "double_mul five thousand = \<lparr>mant = 5000, expo = 0\<rparr>"
  by (simp add: double_mul_def double_round_def five_def thousand_def bitlen_examples Let_def)

lemma double_mul_tenth: "double_mul tenth thousand = \<lparr>mant = 7036874417766400, expo = - 46\<rparr>"
  by (simp add: double_mul_def double_round_def round_shift_def tenth_def thousand_def
      bitlen_examples Let_def)

text \<open>
  C5, as amended. \<open>Busy\<close> returns the object as it was, and with it the record of the
  serial port. When the product \<open>GetDelayMs()*1000.0\<close> is finite, \<open>Busy\<close> answers true
  exactly when the time elapsed since \<open>changedTime_\<close>, in microseconds, is strictly less
  than that product, which is the delay times 1000 rounded to the nearest \<open>double\<close>.
  When the product needs no rounding (the mantissa of the delay times 1000 has at most 53
  binary digits and its exponent is between - 1074 and 971), this is the same as: the
  elapsed time in milliseconds is strictly less than the delay.
\<close>

theorem Busy_elapsed:
  "snd (Busy current s) = s \<and>
   (double_finite (double_mul (delayMs s) thousand) \<longrightarrow>
      fst (Busy current s) = (current - changedTime s < dval (double_mul (delayMs s) thousand))) \<and>
   (int (bitlen \<bar>mant (delayMs s) * 1000\<bar>) \<le> 53 \<and> - 1074 \<le> expo (delayMs s) \<and>
    expo (delayMs s) \<le> 971 \<longrightarrow>
      fst (Busy current s) = ((current - changedTime s) / 1000 < dval (delayMs s)))"
proof -
  have a: "snd (Busy current s) = s"
    by (simp add: Busy_def Let_def)
  have b: "fst (Busy current s) = (current - changedTime s < dval (double_mul (delayMs s) thousand))"
    by (simp add: Busy_def Let_def)
  have c: "fst (Busy current s) = ((current - changedTime s) / 1000 < dval (delayMs s))"
    if "int (bitlen \<bar>mant (delayMs s) * 1000\<bar>) \<le> 53" "- 1074 \<le> expo (delayMs s)"
    using b double_mul_thousand_exact [OF that] by (simp add: pos_divide_less_eq)
  from a b c show ?thesis by blast
qed

text \<open>
  An instance: with a delay of 5 milliseconds and the time stamp 0, \<open>Busy\<close> is true
  at 4999 microseconds and false at 5000.
\<close>

theorem Busy_elapsed_witness:
  "double_finite (double_mul (delayMs (AndorAMH_new\<lparr>delayMs := five\<rparr>)) thousand) \<and>
   int (bitlen \<bar>mant (delayMs (AndorAMH_new\<lparr>delayMs := five\<rparr>)) * 1000\<bar>) \<le> 53 \<and>
   fst (Busy 4999 (AndorAMH_new\<lparr>delayMs := five\<rparr>)) = True \<and>
   fst (Busy 5000 (AndorAMH_new\<lparr>delayMs := five\<rparr>)) = False \<and>
   snd (Busy 5000 (AndorAMH_new\<lparr>delayMs := five\<rparr>)) = AndorAMH_new\<lparr>delayMs := five\<rparr>"
proof -
  let ?s = "AndorAMH_new\<lparr>delayMs := five\<rparr>"
  have f: "double_finite (double_mul (delayMs ?s) thousand)"
    by (simp add: double_mul_five double_finite_def bitlen_examples)
  have e: "int (bitlen \<bar>mant (delayMs ?s) * 1000\<bar>) \<le> 53" "- 1074 \<le> expo (delayMs ?s)"
    "expo (delayMs ?s) \<le> 971"
    by (simp_all add: five_def bitlen_examples)
  have t: "changedTime ?s = 0" "dval (delayMs ?s) = 5"
    by (simp_all add: AndorAMH_new_def five_def dval_def)
  from Busy_elapsed [of 4999 ?s] Busy_elapsed [of 5000 ?s] f e t
  show ?thesis by (simp add: double_mul_five dval_def)
qed

text \<open>
  The statement that \<open>Busy\<close> is true exactly when the elapsed milliseconds are less than
  the delay fails for the delay 0.1: the \<open>double\<close> nearest to 0.1 is a little more than
  0.1, so 100 microseconds are less than the delay, but its product with 1000.0 rounds to
  exactly 100 and \<open>Busy\<close> answers false.
\<close>

theorem Busy_counterexample:
  "\<bar>dval tenth - 1 / 10\<bar> \<le> 1 / 2 ^ 57 \<and>
   (100 - changedTime (AndorAMH_new\<lparr>delayMs := tenth\<rparr>)) / 1000
     < dval (delayMs (AndorAMH_new\<lparr>delayMs := tenth\<rparr>)) \<and>
   dval (double_mul tenth thousand) = 100 \<and>
   fst (Busy 100 (AndorAMH_new\<lparr>delayMs := tenth\<rparr>)) = False"
proof -
  have a: "\<bar>dval tenth - 1 / 10\<bar> \<le> 1 / 2 ^ 57"
    by (simp add: dval_def tenth_def)
  have b: "(100 - changedTime (AndorAMH_new\<lparr>delayMs := tenth\<rparr>)) / 1000
      < dval (delayMs (AndorAMH_new\<lparr>delayMs := tenth\<rparr>))"
    by (simp add: AndorAMH_new_def dval_def tenth_def)
  have c: "dval (double_mul tenth thousand) = 100"
    by (simp add: double_mul_tenth dval_def)
  have d: "fst (Busy 100 (AndorAMH_new\<lparr>delayMs := tenth\<rparr>)) = False"
    by (simp add: Busy_def Let_def c) (simp add: AndorAMH_new_def)
  from a b c d show ?thesis by blast
qed

subsection \<open>The port\<close>

lemma Shutdown_clears:
  "initialized s \<Longrightarrow> fst (Shutdown rt s) = DEVICE_OK \<Longrightarrow> \<not> initialized (snd (Shutdown rt s))"
  by (auto simp: Shutdown_def split: prod.splits if_splits)

text \<open>
  C6, as amended. The lock follows the flag \<open>initialized_\<close>, not the command cycles.
  While the flag is set, an attempt to change the port returns
  \<open>ERR_PORT_CHANGE_FORBIDDEN\<close>, puts the stored port back into the property and leaves
  the object as it was, so that a later read reports the original port; while it is not
  set, the change is accepted and a later read reports the new port. Every \<open>Initialize\<close>
  that returns \<open>DEVICE_OK\<close> sets the flag, whatever became of its command cycle; a
  command cycle leaves the flag as it was; a \<open>Shutdown\<close> of an initialized object that
  returns \<open>DEVICE_OK\<close> clears it.
\<close>

theorem port_locked_when_initialized:
  "(initialized s \<longrightarrow>
      OnPort p AfterSet s = (ERR_PORT_CHANGE_FORBIDDEN, port s, s) \<and>
      OnPort q BeforeGet (snd (snd (OnPort p AfterSet s))) = (DEVICE_OK, port s, s)) \<and>
   (\<not> initialized s \<longrightarrow>
      OnPort p AfterSet s = (DEVICE_OK, p, s\<lparr>port := p\<rparr>) \<and>
      OnPort q BeforeGet (snd (snd (OnPort p AfterSet s))) = (DEVICE_OK, p, s\<lparr>port := p\<rparr>)) \<and>
   (fst (Initialize h rt s) = DEVICE_OK \<longrightarrow> initialized (snd (Initialize h rt s))) \<and>
   initialized (snd (SetShutterPosition st rt s)) = initialized s \<and>
   (initialized s \<and> fst (Shutdown rt s) = DEVICE_OK \<longrightarrow> \<not> initialized (snd (Shutdown rt s)))"
proof -
  have a: "initialized s \<longrightarrow>
      OnPort p AfterSet s = (ERR_PORT_CHANGE_FORBIDDEN, port s, s) \<and>
      OnPort q BeforeGet (snd (snd (OnPort p AfterSet s))) = (DEVICE_OK, port s, s)"
    by (simp add: OnPort_def)
  have b: "\<not> initialized s \<longrightarrow>
      OnPort p AfterSet s = (DEVICE_OK, p, s\<lparr>port := p\<rparr>) \<and>
      OnPort q BeforeGet (snd (snd (OnPort p AfterSet s))) = (DEVICE_OK, p, s\<lparr>port := p\<rparr>)"
    by (simp add: OnPort_def)
  have c: "fst (Initialize h rt s) = DEVICE_OK \<longrightarrow> initialized (snd (Initialize h rt s))"
    using Initialize_ok(1) by blast
  have d: "initialized (snd (SetShutterPosition st rt s)) = initialized s"
    by (rule SetShutterPosition_frame(1))
  have e: "initialized s \<and> fst (Shutdown rt s) = DEVICE_OK \<longrightarrow> \<not> initialized (snd (Shutdown rt s))"
    using Shutdown_clears by blast
  from a b c d e show ?thesis by blast
qed

text \<open>
  An instance: after construction, a successful \<open>Initialize\<close> and one successful
  \<open>SetOpen(true)\<close> the port is locked; right after construction it is not; and a
  successful \<open>Shutdown\<close> of the initialized object clears the flag.
\<close>

theorem port_locked_when_initialized_witness:
  "initialized (snd (SetOpen True (transport_ok ''R'' 1) ready)) \<and>
   fst (SetOpen True (transport_ok ''R'' 1) ready) = DEVICE_OK \<and>
   fst (OnPort ''COM3'' AfterSet (snd (SetOpen True (transport_ok ''R'' 1) ready)))
     = ERR_PORT_CHANGE_FORBIDDEN \<and>
   fst (snd (OnPort ''COM3'' AfterSet (snd (SetOpen True (transport_ok ''R'' 1) ready))))
     = ''Andor-AMH200-FOS'' \<and>
   port (snd (snd (OnPort ''COM3'' AfterSet (snd (SetOpen True (transport_ok ''R'' 1) ready)))))
     = ''Andor-AMH200-FOS'' \<and>
   \<not> initialized AndorAMH_new \<and>
   OnPort ''COM3'' AfterSet AndorAMH_new = (DEVICE_OK, ''COM3'', AndorAMH_new\<lparr>port := ''COM3''\<rparr>) \<and>
   fst (Initialize (host_ok 0) (transport_ok ''R'' 0) AndorAMH_new) = DEVICE_OK \<and>
   initialized ready \<and>
   fst (Shutdown (transport_ok ''R'' 2) ready) = DEVICE_OK \<and>
   \<not> initialized (snd (Shutdown (transport_ok ''R'' 2) ready))"
proof -
  let ?s = "snd (SetOpen True (transport_ok ''R'' 1) ready)"
  have i: "initialized ?s" by (simp add: SetOpen_frame ready_eq)
  have p: "port ?s = ''Andor-AMH200-FOS''" by (simp add: SetOpen_frame ready_eq)
  have r: "fst (SetOpen True (transport_ok ''R'' 1) ready) = DEVICE_OK"
    by (simp add: SetOpen_def SetProperty_State_def OnState_def SetShutterPosition_def
        transport_ok_def Let_def ready_eq)
  have n: "\<not> initialized AndorAMH_new" by (simp add: AndorAMH_new_def)
  have o: "fst (Initialize (host_ok 0) (transport_ok ''R'' 0) AndorAMH_new) = DEVICE_OK"
    by (simp add: Initialize_def host_ok_def Let_def)
  have j: "initialized ready" by (simp add: ready_eq)
  have k: "fst (Shutdown (transport_ok ''R'' 2) ready) = DEVICE_OK"
    by (simp add: Shutdown_def SetShutterPosition_def transport_ok_def Let_def ready_eq
        split: prod.splits)
  from port_locked_when_initialized [of ?s "''COM3''" "''COM3''"]
    port_locked_when_initialized [of AndorAMH_new "''COM3''" "''COM3''" "host_ok 0"
      "transport_ok ''R'' 0"]
    port_locked_when_initialized [of ready "''COM3''" "''COM3''" "host_ok 0" "transport_ok ''R'' 2"]
    i p r n o j k
  show ?thesis by (simp add: ready_def)
qed

text \<open>
  The statement that the port is locked after the first successful command cycle, and
  free before, fails both ways. After \<open>Initialize\<close>, a \<open>SetOpen(true)\<close> answered \<open>R\<close> and
  a \<open>Shutdown\<close> answered \<open>R\<close>, three command cycles have succeeded and the change of port
  is accepted. After an \<open>Initialize\<close> whose command cycle failed at the purge, nothing
  has been sent, no cycle has succeeded, and the change of port is refused.
\<close>

theorem port_lock_counterexample:
  "fst (SetOpen True (transport_ok ''R'' 1) ready) = DEVICE_OK \<and>
   fst (Shutdown (transport_ok ''R'' 2) (snd (SetOpen True (transport_ok ''R'' 1) ready)))
     = DEVICE_OK \<and>
   fst (OnPort ''COM3'' AfterSet
     (snd (Shutdown (transport_ok ''R'' 2) (snd (SetOpen True (transport_ok ''R'' 1) ready)))))
     = DEVICE_OK \<and>
   port (snd (snd (OnPort ''COM3'' AfterSet
     (snd (Shutdown (transport_ok ''R'' 2) (snd (SetOpen True (transport_ok ''R'' 1) ready)))))))
     = ''COM3'' \<and>
   fst (Initialize (host_ok 0) (purge_fails 0) AndorAMH_new) = DEVICE_OK \<and>
   serial (snd (Initialize (host_ok 0) (purge_fails 0) AndorAMH_new))
     = [Purge ''Andor-AMH200-FOS''] \<and>
   fst (OnPort ''COM3'' AfterSet (snd (Initialize (host_ok 0) (purge_fails 0) AndorAMH_new)))
     = ERR_PORT_CHANGE_FORBIDDEN \<and>
   port (snd (snd (OnPort ''COM3'' AfterSet
     (snd (Initialize (host_ok 0) (purge_fails 0) AndorAMH_new))))) = ''Andor-AMH200-FOS''"
  by (simp add: ready_eq SetOpen_def SetProperty_State_def OnState_def Shutdown_def
      Initialize_def host_ok_def purge_fails_def SetShutterPosition_def log_op_def
      transport_ok_def OnPort_def AndorAMH_new_def Let_def DEVICE_OK_def
      ERR_PORT_CHANGE_FORBIDDEN_def)

subsection \<open>Device errors\<close>

text \<open>
  C7. For a reply that starts with \<open>E\<close>, is longer than 2 characters and whose text
  from index 2 on is a valid integer \<open>n\<close>, a command cycle whose port operations succeed
  returns \<open>ERR_OFFSET + n\<close>, that is 10100 plus \<open>n\<close>. The premises \<open>fits_int\<close> keep
  \<open>n\<close> and the sum inside the range of \<open>int\<close>.
\<close>

theorem device_error_code:
  assumes "purge_ret rt = DEVICE_OK" "send_ret rt = DEVICE_OK" "answer_ret rt = DEVICE_OK"
    and "hd (answer rt) = CHR ''E''" "length (answer rt) > 2"
    and "spec_parse_int (drop 2 (answer rt)) = Some n"
    and "fits_int n" "fits_int (ERR_OFFSET + n)"
  shows "fst (SetShutterPosition st rt s) = ERR_OFFSET + n"
  using SetShutterPosition_E [OF assms(1-5)] atoi_valid_integer [OF assms(6)] by simp

theorem device_error_code_witness:
  "fst (SetShutterPosition True (transport_ok ''E,12'' 5) AndorAMH_new) = 10112"
proof -
  let ?rt = "transport_ok ''E,12'' 5"
  have h: "purge_ret ?rt = DEVICE_OK" "send_ret ?rt = DEVICE_OK" "answer_ret ?rt = DEVICE_OK"
    "hd (answer ?rt) = CHR ''E''" "length (answer ?rt) > 2"
    "spec_parse_int (drop 2 (answer ?rt)) = Some 12"
    "fits_int 12" "fits_int (ERR_OFFSET + 12)"
    by (simp_all add: transport_ok_def spec_parse_12 fits_int_def INT_MIN_def INT_MAX_def ERR_OFFSET_def)
  from device_error_code [OF h, of True AndorAMH_new] show ?thesis
    by (simp add: ERR_OFFSET_def)
qed

subsection \<open>The intensity\<close>

text \<open>
  The handler itself checks nothing: on a closed shutter it stores any level.
\<close>

lemma OnIntensity_stores_unchecked:
  "\<not> curState s \<Longrightarrow> OnIntensity level AfterSet rt s = (DEVICE_OK, level, s\<lparr>intensity := level\<rparr>)"
  by (simp add: OnIntensity_def Let_def)

lemma SetProperty_Intensity_rejects:
  assumes "hasIntensity s" "intensityLimits s = Some (1, 100)" "level < 1 \<or> 100 < level"
  shows "SetProperty_Intensity level rt s = (DEVICE_INVALID_PROPERTY_VALUE, s)"
  using assms by (auto simp: SetProperty_Intensity_def)

lemma Initialize_returns_ok:
  "fst (Initialize (host_ok 0) (transport_ok ''R'' 0) AndorAMH_new) = DEVICE_OK"
  by (simp add: Initialize_def host_ok_def Let_def)

text \<open>
  C8. After a successful \<open>Initialize\<close>, which registers the limits 1 and 100, setting a
  level below 1 or above 100 fails with \<open>DEVICE_INVALID_PROPERTY_VALUE\<close> and returns the
  object as it was: the stored intensity is unchanged and nothing has happened on the
  serial port. The same holds after a following \<open>SetOpen\<close>, so also while the shutter
  is open and an accepted level would be sent to the device.
\<close>

theorem intensity_out_of_range:
  assumes "fst (Initialize h rt0 s0) = DEVICE_OK" and "level < 1 \<or> 100 < level"
  shows "SetProperty_Intensity level rt (snd (Initialize h rt0 s0)) =
           (DEVICE_INVALID_PROPERTY_VALUE, snd (Initialize h rt0 s0)) \<and>
         SetProperty_Intensity level rt (snd (SetOpen b rt1 (snd (Initialize h rt0 s0)))) =
           (DEVICE_INVALID_PROPERTY_VALUE, snd (SetOpen b rt1 (snd (Initialize h rt0 s0)))) \<and>
         DEVICE_INVALID_PROPERTY_VALUE \<noteq> DEVICE_OK"
proof -
  let ?s = "snd (Initialize h rt0 s0)"
  have a: "hasIntensity ?s" "intensityLimits ?s = Some (1, 100)"
    using Initialize_ok [OF assms(1)] by simp_all
  then have b: "hasIntensity (snd (SetOpen b rt1 ?s))"
    "intensityLimits (snd (SetOpen b rt1 ?s)) = Some (1, 100)"
    by (simp_all add: SetOpen_frame)
  show ?thesis
    using SetProperty_Intensity_rejects [OF a assms(2)] SetProperty_Intensity_rejects [OF b assms(2)]
    by (simp add: DEVICE_INVALID_PROPERTY_VALUE_def DEVICE_OK_def)
qed

theorem intensity_out_of_range_witness:
  "SetProperty_Intensity 0 (transport_ok ''R'' 2) ready = (DEVICE_INVALID_PROPERTY_VALUE, ready) \<and>
   SetProperty_Intensity 101 (transport_ok ''R'' 2) (snd (SetOpen True (transport_ok ''R'' 1) ready)) =
     (DEVICE_INVALID_PROPERTY_VALUE, snd (SetOpen True (transport_ok ''R'' 1) ready)) \<and>
   curState (snd (SetOpen True (transport_ok ''R'' 1) ready)) \<and>
   intensity (snd (SetOpen True (transport_ok ''R'' 1) ready)) = 1"
proof -
  have a: "(0::int) < 1 \<or> 100 < (0::int)" and b: "(101::int) < 1 \<or> 100 < (101::int)" by simp_all
  have c: "curState (snd (SetOpen True (transport_ok ''R'' 1) ready))"
    by (simp add: SetOpen_def SetProperty_State_def OnState_def Let_def
        SetShutterPosition_frame ready_eq)
  have d: "intensity (snd (SetOpen True (transport_ok ''R'' 1) ready)) = 1"
    by (simp add: SetOpen_frame ready_eq)
  from intensity_out_of_range [OF Initialize_returns_ok a, of "transport_ok ''R'' 2"]
    intensity_out_of_range [OF Initialize_returns_ok b, of "transport_ok ''R'' 2" True "transport_ok ''R'' 1"]
    c d
  show ?thesis by (simp add: ready_def)
qed

subsection \<open>Construction\<close>

text \<open>
  C9. The constructor leaves the shutter closed and the delay 0, and it sets the
  intensity to 1, not 100: the first \<open>SetOpen(true)\<close> after a successful
  \<open>Initialize\<close> sends \<open>LIGHT,1\<close>.
\<close>

theorem constructor_defaults:
  "curState AndorAMH_new = False \<and> delayMs AndorAMH_new = \<lparr>mant = 0, expo = 0\<rparr> \<and>
   dval (delayMs AndorAMH_new) = 0 \<and> intensity AndorAMH_new = 1 \<and>
   fst (Initialize (host_ok 0) (transport_ok ''R'' 0) AndorAMH_new) = DEVICE_OK \<and>
   fst (SetOpen True (transport_ok ''R'' 1) ready) = DEVICE_OK \<and>
   sent (snd (SetOpen True (transport_ok ''R'' 1) ready)) = [''LIGHT,0'', ''LIGHT,1'']"
  by (simp add: ready_eq AndorAMH_new_def Initialize_def host_ok_def SetOpen_def
      SetProperty_State_def OnState_def SetShutterPosition_sent sent_def command_text_def
      show_long_examples SetShutterPosition_def log_op_def transport_ok_def Let_def dval_def)

subsection \<open>Fire\<close>

text \<open>
  C10. For every argument \<open>deltaT\<close>, \<open>Fire\<close> returns \<open>DEVICE_UNSUPPORTED_COMMAND\<close> and
  leaves every member of the object, and the serial port, as they were.
\<close>

theorem Fire_unsupported:
  "Fire deltaT s = (DEVICE_UNSUPPORTED_COMMAND, s)"
  by (simp add: Fire_def)

end
